theory Spec2Isabelle
  imports Main
begin

section \<open>Python values, exceptions and frames\<close>

text \<open>
  The two modules are glue over pandas, json, matplotlib, the geoglows data library and the
  agent framework. Values that cross those boundaries are modelled as data; calls whose
  result depends on a remote service or on a library's text format are fields of an
  environment record, so every theorem holds for each behaviour of those calls.
\<close>

datatype exn =
    ValueError string
  | TypeError string
  | KeyError string
  | JSONDecodeError string
  | LibraryError string

text \<open>
  A timestamp is an instant (nanoseconds since the epoch) together with the zone of the
  column or scalar that holds it: \<open>None\<close> is a zone-naive value, \<open>Some z\<close> a value aware
  of zone \<open>z\<close>. A float is held as its \<open>repr\<close> text, since no arithmetic is done on it.
\<close>

type_synonym tzinfo = "string option"

datatype pyval =
    PNone
  | PBool bool
  | PInt int
  | PFloat string
  | PStr string
  | PTimestamp tzinfo int
  | PNaT
  | PList "pyval list"
  | PDict "(string \<times> pyval) list"

text \<open>
  A column (a pandas Series without its index) is either of a datetime64 dtype, where each
  cell is an instant or the missing value NaT (\<open>None\<close>), or of any other dtype, where the
  cells are plain values.
\<close>

datatype column =
    Datetime64 tzinfo "int option list"
  | Values "pyval list"

record dataframe =
  index_name :: "string option"
  index :: column
  columns :: "(string \<times> column) list"

fun col_len :: "column \<Rightarrow> nat" where
  "col_len (Datetime64 tz xs) = length xs"
| "col_len (Values vs) = length vs"

fun cell_of :: "tzinfo \<Rightarrow> int option \<Rightarrow> pyval" where
  "cell_of tz (Some t) = PTimestamp tz t"
| "cell_of tz None = PNaT"

fun cells :: "column \<Rightarrow> pyval list" where
  "cells (Datetime64 tz xs) = map (cell_of tz) xs"
| "cells (Values vs) = vs"

definition labels :: "dataframe \<Rightarrow> string list" where
  "labels df = map fst (columns df)"

definition nrows :: "dataframe \<Rightarrow> nat" where
  "nrows df = col_len (index df)"

text \<open>
  The frames of the model: every column is as long as the index, and no column label is
  repeated. Frames with repeated labels are outside the model.
\<close>

definition wf_frame :: "dataframe \<Rightarrow> bool" where
  "wf_frame df \<longleftrightarrow>
     distinct (labels df) \<and> list_all (\<lambda>(n, c). col_len c = nrows df) (columns df)"

definition and_then :: "'e + 'a \<Rightarrow> ('a \<Rightarrow> 'e + 'b) \<Rightarrow> 'e + 'b" where
  "and_then r f = (case r of Inl e \<Rightarrow> Inl e | Inr a \<Rightarrow> f a)"

section \<open>The protocol server: geoglows\_mcp\_server.py\<close>

subsection \<open>dataframe\_to\_json\_serializable\<close>

text \<open>
  \<open>df.reset_index()\<close>: the index becomes the first column, under its own name, or under
  \<open>index\<close> (\<open>level_0\<close> when a column \<open>index\<close> exists) if it has none; pandas raises
  ValueError when that label is already a column. The new index is 0, 1, ...
\<close>

definition reset_label :: "dataframe \<Rightarrow> string" where
  "reset_label df =
     (case index_name df of
        Some n \<Rightarrow> n
      | None \<Rightarrow> if ''index'' \<notin> set (labels df) then ''index'' else ''level_0'')"

definition reset_index :: "dataframe \<Rightarrow> exn + dataframe" where
  "reset_index df =
     (if reset_label df \<in> set (labels df)
      then Inl (ValueError (''cannot insert '' @ reset_label df @ '', already exists''))
      else Inr \<lparr>index_name = None,
                index = Values (map (\<lambda>i. PInt (int i)) [0..<nrows df]),
                columns = (reset_label df, index df) # columns df\<rparr>)"

text \<open>The lambda of line 18, \<open>x.isoformat() if pd.notna(x) else None\<close>, on a datetime cell.\<close>

fun isoformat_or_none :: "(tzinfo \<Rightarrow> int \<Rightarrow> string) \<Rightarrow> tzinfo \<Rightarrow> int option \<Rightarrow> pyval" where
  "isoformat_or_none fmt tz (Some t) = PStr (fmt tz t)"
| "isoformat_or_none fmt tz None = PNone"

definition set_column :: "string \<Rightarrow> column \<Rightarrow> (string \<times> column) list \<Rightarrow> (string \<times> column) list" where
  "set_column name c cols = map (\<lambda>(n, old). if n = name then (n, c) else (n, old)) cols"

text \<open>
  One pass of the loop of lines 16 to 18, for the label \<open>col\<close>: a column of a datetime64
  dtype is replaced by the column of the lambda's results, any other column is left alone.
\<close>

definition convert_at :: "(tzinfo \<Rightarrow> int \<Rightarrow> string) \<Rightarrow> string \<Rightarrow> (string \<times> column) list \<Rightarrow> (string \<times> column) list" where
  "convert_at fmt col cols =
     (case map_of cols col of
        Some (Datetime64 tz xs) \<Rightarrow> set_column col (Values (map (isoformat_or_none fmt tz) xs)) cols
      | _ \<Rightarrow> cols)"

text \<open>\<open>to_dict(orient="records")\<close>: one dict per row, keyed by column label.\<close>

definition to_dict_records :: "dataframe \<Rightarrow> (string \<times> pyval) list list" where
  "to_dict_records df =
     map (\<lambda>i. map (\<lambda>(n, c). (n, cells c ! i)) (columns df)) [0..<nrows df]"

definition dataframe_to_json_serializable ::
    "(tzinfo \<Rightarrow> int \<Rightarrow> string) \<Rightarrow> dataframe \<Rightarrow> exn + (string \<times> pyval) list list" where
  "dataframe_to_json_serializable fmt df =
     and_then (reset_index df) (\<lambda>df_copy.
       Inr (to_dict_records
              (df_copy\<lparr>columns := fold (convert_at fmt) (labels df_copy) (columns df_copy)\<rparr>)))"

subsection \<open>The four tools\<close>

text \<open>
  What the server calls and does not define: the four fetches of \<open>geoglows.data\<close> (each
  returns a frame or raises), \<open>Timestamp.isoformat\<close>, \<open>pd.to_datetime\<close> on the values of
  an index and on one string with \<open>utc=True\<close> (a zone-aware instant, or NaT),
  \<open>json.dumps(..., indent=2)\<close> and \<open>DataFrame.to_json()\<close>.
\<close>

record library =
  forecast :: "int \<Rightarrow> string option \<Rightarrow> exn + dataframe"
  retrospective :: "int \<Rightarrow> exn + dataframe"
  forecast_stats :: "int \<Rightarrow> string option \<Rightarrow> exn + dataframe"
  return_periods :: "int \<Rightarrow> exn + dataframe"
  isoformat :: "tzinfo \<Rightarrow> int \<Rightarrow> string"
  to_datetime :: "pyval list \<Rightarrow> exn + tzinfo \<times> int option list"
  to_datetime_utc :: "string \<Rightarrow> exn + int option"
  json_dumps :: "pyval \<Rightarrow> exn + string"
  to_json :: "dataframe \<Rightarrow> exn + string"

text \<open>\<open>json.dumps(dataframe_to_json_serializable(df), indent=2)\<close>.\<close>

definition dumps_records :: "library \<Rightarrow> dataframe \<Rightarrow> exn + string" where
  "dumps_records L df =
     and_then (dataframe_to_json_serializable (isoformat L) df) (\<lambda>records.
       json_dumps L (PList (map PDict records)))"

definition get_forecasted_streamflow :: "library \<Rightarrow> int \<Rightarrow> string option \<Rightarrow> exn + string" where
  "get_forecasted_streamflow L river_id date =
     and_then (forecast L river_id date) (dumps_records L)"

text \<open>
  \<open>df.index = pd.to_datetime(df.index)\<close>: an index that is a datetime index already is
  kept; assigning an index of another length raises ValueError.
\<close>

definition index_to_datetime :: "library \<Rightarrow> dataframe \<Rightarrow> exn + dataframe" where
  "index_to_datetime L df =
     (case index df of
        Datetime64 tz xs \<Rightarrow> Inr df
      | Values vs \<Rightarrow>
          and_then (to_datetime L vs) (\<lambda>(tz, xs).
            if length xs = length vs then Inr (df\<lparr>index := Datetime64 tz xs\<rparr>)
            else Inl (ValueError ''Length mismatch'')))"

text \<open>
  \<open>df.index >= bound\<close> and \<open>df.index <= bound\<close>, the bound being zone-aware or NaT:
  NaT on either side compares False; a zone-naive index against an instant raises
  TypeError. The last case is not reached, the index having just been converted.
\<close>

fun index_compare :: "(int \<Rightarrow> int \<Rightarrow> bool) \<Rightarrow> column \<Rightarrow> int option \<Rightarrow> exn + bool list" where
  "index_compare rel (Datetime64 tz xs) None = Inr (map (\<lambda>x. False) xs)"
| "index_compare rel (Datetime64 tz xs) (Some b) =
     (if tz = None then Inl (TypeError ''Invalid comparison between dtype=datetime64[ns] and Timestamp'')
      else Inr (map (\<lambda>x. case x of None \<Rightarrow> False | Some t \<Rightarrow> rel t b) xs))"
| "index_compare rel (Values vs) bound = Inl (TypeError ''Invalid comparison'')"

definition pick :: "bool list \<Rightarrow> 'a list \<Rightarrow> 'a list" where
  "pick keep xs = map snd (filter fst (zip keep xs))"

fun take_rows :: "bool list \<Rightarrow> column \<Rightarrow> column" where
  "take_rows keep (Datetime64 tz xs) = Datetime64 tz (pick keep xs)"
| "take_rows keep (Values vs) = Values (pick keep vs)"

text \<open>\<open>df[keep]\<close> for a boolean array \<open>keep\<close>: the rows where it holds, in order.\<close>

definition select_rows :: "bool list \<Rightarrow> dataframe \<Rightarrow> dataframe" where
  "select_rows keep df =
     df\<lparr>index := take_rows keep (index df),
        columns := map (\<lambda>(n, c). (n, take_rows keep c)) (columns df)\<rparr>"

text \<open>
  Lines 57 to 60, for one bound: \<open>if bound: df = df[df.index <rel> pd.to_datetime(bound,
  utc=True)]\<close>. A bound that is \<open>None\<close> or the empty string is falsy and filters nothing.
\<close>

definition filter_bound ::
    "library \<Rightarrow> (int \<Rightarrow> int \<Rightarrow> bool) \<Rightarrow> string option \<Rightarrow> dataframe \<Rightarrow> exn + dataframe" where
  "filter_bound L rel bound df =
     (case bound of
        None \<Rightarrow> Inr df
      | Some s \<Rightarrow>
          if s = [] then Inr df
          else and_then (to_datetime_utc L s) (\<lambda>b.
                 and_then (index_compare rel (index df) b) (\<lambda>keep.
                   Inr (select_rows keep df))))"

definition get_historical_streamflow ::
    "library \<Rightarrow> int \<Rightarrow> string option \<Rightarrow> string option \<Rightarrow> exn + string" where
  "get_historical_streamflow L river_id start_date end_date =
     and_then (retrospective L river_id) (\<lambda>df.
     and_then (index_to_datetime L df) (\<lambda>df.
     and_then (filter_bound L (\<lambda>t b. t \<ge> b) start_date df) (\<lambda>df.
     and_then (filter_bound L (\<lambda>t b. t \<le> b) end_date df) (\<lambda>df.
       dumps_records L df))))"

definition get_forecast_stats :: "library \<Rightarrow> int \<Rightarrow> string option \<Rightarrow> exn + string" where
  "get_forecast_stats L river_id date =
     and_then (forecast_stats L river_id date) (dumps_records L)"

definition get_return_periods :: "library \<Rightarrow> int \<Rightarrow> exn + string" where
  "get_return_periods L river_id = and_then (return_periods L river_id) (to_json L)"

text \<open>
  The functions registered by \<open>@mcp.tool()\<close>, in source order, each with its required
  parameters and its parameters that default to \<open>None\<close>.
\<close>

record tool =
  tool_name :: string
  required :: "string list"
  optional :: "string list"

definition mcp_tools :: "tool list" where
  "mcp_tools =
     [\<lparr>tool_name = ''get_forecasted_streamflow'', required = [''river_id''], optional = [''date'']\<rparr>,
      \<lparr>tool_name = ''get_historical_streamflow'', required = [''river_id''],
        optional = [''start_date'', ''end_date'']\<rparr>,
      \<lparr>tool_name = ''get_forecast_stats'', required = [''river_id''], optional = [''date'']\<rparr>,
      \<lparr>tool_name = ''get_return_periods'', required = [''river_id''], optional = []\<rparr>]"

section \<open>The agent's plotting tool: agent.py\<close>

text \<open>
  The calls \<open>plot_streamflow\<close> makes into matplotlib, the console and the artifact store,
  in the order made: \<open>Series.plot\<close> on a column (with its label, if one is given),
  \<open>fill_between\<close> on two columns, \<open>legend\<close>, \<open>savefig\<close>, \<open>close\<close>, \<open>print\<close>,
  and \<open>save_artifact\<close> under a name.
\<close>

datatype event =
    Plot string "string option"
  | FillBetween string string
  | Legend
  | Savefig
  | Close
  | Print
  | SaveArtifact string

text \<open>
  What the tool calls and does not define: \<open>json.loads\<close>, the \<open>pd.DataFrame\<close>
  constructor, \<open>pd.to_datetime\<close> on a column, \<open>repr\<close> of a container or timestamp,
  and whether one of the calls above raises, given the calls completed before it.
\<close>

record agent_env =
  json_loads :: "string \<Rightarrow> exn + pyval"
  pd_DataFrame :: "pyval \<Rightarrow> exn + dataframe"
  to_datetime_series :: "column \<Rightarrow> exn + column"
  py_repr :: "pyval \<Rightarrow> string"
  fails :: "event list \<Rightarrow> event \<Rightarrow> exn option"

function string_of_nat :: "nat \<Rightarrow> string" where
  "string_of_nat n =
     (if n < 10 then [''0123456789'' ! n]
      else string_of_nat (n div 10) @ [''0123456789'' ! (n mod 10)])"
  by pat_completeness auto
termination
  by (relation "measure id") auto

declare string_of_nat.simps [simp del]

text \<open>\<open>str(v)\<close>.\<close>

definition py_str :: "agent_env \<Rightarrow> pyval \<Rightarrow> string" where
  "py_str E v =
     (case v of
        PStr s \<Rightarrow> s
      | PInt n \<Rightarrow> (if n < 0 then CHR ''-'' # string_of_nat (nat (- n)) else string_of_nat (nat n))
      | PBool b \<Rightarrow> (if b then ''True'' else ''False'')
      | PNone \<Rightarrow> ''None''
      | PFloat r \<Rightarrow> r
      | _ \<Rightarrow> py_repr E v)"

text \<open>\<open>v[key]\<close> for a string key: only a dict can be subscripted so.\<close>

definition getitem :: "pyval \<Rightarrow> string \<Rightarrow> exn + pyval" where
  "getitem v key =
     (case v of
        PDict kvs \<Rightarrow> (case map_of kvs key of Some x \<Rightarrow> Inr x | None \<Rightarrow> Inl (KeyError key))
      | _ \<Rightarrow> Inl (TypeError ''bad subscript''))"

text \<open>\<open>json.loads(v)\<close>: the argument must be text.\<close>

definition loads_value :: "agent_env \<Rightarrow> pyval \<Rightarrow> exn + pyval" where
  "loads_value E v =
     (case v of
        PStr s \<Rightarrow> json_loads E s
      | _ \<Rightarrow> Inl (TypeError ''the JSON object must be str, bytes or bytearray''))"

text \<open>Lines 295 to 297: the stored response, decoded when it is a string.\<close>

definition response :: "agent_env \<Rightarrow> (string \<rightharpoonup> pyval) \<Rightarrow> exn + pyval" where
  "response E state =
     (case state ''streamflow_out'' of
        None \<Rightarrow> Inl (KeyError ''streamflow_out'')
      | Some (PStr s) \<Rightarrow> json_loads E s
      | Some v \<Rightarrow> Inr v)"

text \<open>
  Lines 308 to 310: a column \<open>time\<close>, when there is one, is converted and becomes the
  index, so it is no longer among the columns.
\<close>

definition index_by_time :: "agent_env \<Rightarrow> dataframe \<Rightarrow> exn + dataframe" where
  "index_by_time E df =
     (case map_of (columns df) ''time'' of
        None \<Rightarrow> Inr df
      | Some c \<Rightarrow>
          and_then (to_datetime_series E c) (\<lambda>c'.
            Inr \<lparr>index_name = Some ''time'', index = c',
                 columns = filter (\<lambda>(n, old). n \<noteq> ''time'') (columns df)\<rparr>))"

text \<open>Lines 306 to 310: the frame built from the response's \<open>data\<close>.\<close>

definition frame :: "agent_env \<Rightarrow> pyval \<Rightarrow> exn + dataframe" where
  "frame E mcp_response =
     and_then (getitem mcp_response ''data'') (\<lambda>d.
     and_then (loads_value E d) (\<lambda>parsed.
     and_then (pd_DataFrame E parsed) (index_by_time E)))"

text \<open>
  The state of a run: the value of \<open>col_to_plot\<close>, the calls completed so far, and the
  exception raised, if any. Once an exception is raised no further step has an effect.
\<close>

record outcome =
  col_to_plot :: "string option"
  trace :: "event list"
  raised :: "exn option"

definition start :: outcome where
  "start = \<lparr>col_to_plot = None, trace = [], raised = None\<rparr>"

definition raise :: "exn \<Rightarrow> outcome \<Rightarrow> outcome" where
  "raise e oc = (if raised oc = None then oc\<lparr>raised := Some e\<rparr> else oc)"

definition call :: "agent_env \<Rightarrow> event \<Rightarrow> outcome \<Rightarrow> outcome" where
  "call E ev oc =
     (if raised oc \<noteq> None then oc
      else case fails E (trace oc) ev of
             None \<Rightarrow> oc\<lparr>trace := trace oc @ [ev]\<rparr>
           | Some e \<Rightarrow> oc\<lparr>raised := Some e\<rparr>)"

text \<open>\<open>df[col]\<close>: KeyError when the frame has no such column.\<close>

definition subscript :: "dataframe \<Rightarrow> string \<Rightarrow> outcome \<Rightarrow> outcome" where
  "subscript df col oc = (if col \<in> set (labels df) then oc else raise (KeyError col) oc)"

definition assign :: "string \<Rightarrow> outcome \<Rightarrow> outcome" where
  "assign col oc = (if raised oc = None then oc\<lparr>col_to_plot := Some col\<rparr> else oc)"

definition run :: "(outcome \<Rightarrow> outcome) list \<Rightarrow> outcome \<Rightarrow> outcome" where
  "run steps oc = fold (\<lambda>step. step) steps oc"

text \<open>Lines 314 to 335: the branch on \<open>data_request\<close>.\<close>

definition dispatch :: "agent_env \<Rightarrow> pyval \<Rightarrow> pyval \<Rightarrow> dataframe \<Rightarrow> outcome" where
  "dispatch E mcp_response data_request df =
     (if data_request = PStr ''get_forecasted_streamflow'' then
        run [assign ''flow_median'',
             subscript df ''flow_median'',
             call E (Plot ''flow_median'' (Some ''Median Flow'')),
             subscript df ''flow_uncertainty_lower'',
             subscript df ''flow_uncertainty_upper'',
             call E (FillBetween ''flow_uncertainty_lower'' ''flow_uncertainty_upper''),
             call E Legend] start
      else if data_request = PStr ''get_historical_streamflow'' then
        (case getitem mcp_response ''reach_id'' of
           Inl e \<Rightarrow> raise e start
         | Inr r \<Rightarrow>
             run [assign (py_str E r),
                  subscript df (py_str E r),
                  call E (Plot (py_str E r) None)] start)
      else if data_request = PStr ''get_forecast_stats'' then
        assign ''flow_avg'' start
      else start)"

text \<open>Lines 338 to 349: \<open>if col_to_plot and col_to_plot in df.columns\<close>, then save.\<close>

definition save_plot :: "agent_env \<Rightarrow> dataframe \<Rightarrow> outcome \<Rightarrow> outcome" where
  "save_plot E df oc =
     (case col_to_plot oc of
        None \<Rightarrow> oc
      | Some col \<Rightarrow>
          if col \<noteq> [] \<and> col \<in> set (labels df) then
            run [call E Savefig, call E Close, call E Print,
                 call E (SaveArtifact ''geoglows_plot.png'')] oc
          else oc)"

definition plot_streamflow :: "agent_env \<Rightarrow> (string \<rightharpoonup> pyval) \<Rightarrow> outcome" where
  "plot_streamflow E state =
     (case response E state of
        Inl e \<Rightarrow> raise e start
      | Inr mcp_response \<Rightarrow>
          (case getitem mcp_response ''data_request'' of
             Inl e \<Rightarrow> raise e start
           | Inr data_request \<Rightarrow>
               if data_request = PStr ''get_return_periods'' then start
               else (case frame E mcp_response of
                       Inl e \<Rightarrow> raise e start
                     | Inr df \<Rightarrow> save_plot E df (dispatch E mcp_response data_request df))))"

section \<open>Definitions used to state the properties\<close>



text \<open>
  A date argument and the bound it stands for: no bound when the argument is absent or
  empty, the instant \<open>t\<close> when \<open>pd.to_datetime(arg, utc=True)\<close> gives \<open>t\<close>.
\<close>

definition bound_given :: "library \<Rightarrow> string option \<Rightarrow> int option \<Rightarrow> bool" where
  "bound_given L arg b =
     (case (arg, b) of
        (None, None) \<Rightarrow> True
      | (None, Some t) \<Rightarrow> False
      | (Some s, None) \<Rightarrow> s = []
      | (Some s, Some t) \<Rightarrow> s \<noteq> [] \<and> to_datetime_utc L s = Inr (Some t))"

definition keep_from :: "int option \<Rightarrow> int option \<Rightarrow> bool" where
  "keep_from lo x =
     (case lo of None \<Rightarrow> True | Some l \<Rightarrow> (case x of None \<Rightarrow> False | Some t \<Rightarrow> t \<ge> l))"

definition keep_until :: "int option \<Rightarrow> int option \<Rightarrow> bool" where
  "keep_until hi x =
     (case hi of None \<Rightarrow> True | Some h \<Rightarrow> (case x of None \<Rightarrow> False | Some t \<Rightarrow> t \<le> h))"

text \<open>
  An index entry lies within the bounds, both inclusive. A missing entry (NaT) lies within
  them only when there is no bound at all.
\<close>

definition in_range :: "int option \<Rightarrow> int option \<Rightarrow> int option \<Rightarrow> bool" where
  "in_range lo hi x =
     (case x of
        None \<Rightarrow> lo = None \<and> hi = None
      | Some t \<Rightarrow> (case lo of None \<Rightarrow> True | Some l \<Rightarrow> l \<le> t) \<and>
                  (case hi of None \<Rightarrow> True | Some h \<Rightarrow> t \<le> h))"

section \<open>Example environments\<close>

text \<open>
  Stand-ins for the library calls, used to run the functions on concrete inputs. The
  serializer writes a value without quoting its strings.
\<close>

fun join :: "string \<Rightarrow> string list \<Rightarrow> string" where
  "join sep [] = []"
| "join sep [x] = x"
| "join sep (x # y # ys) = x @ sep @ join sep (y # ys)"

fun render :: "pyval \<Rightarrow> string"
  and render_items :: "pyval list \<Rightarrow> string list"
  and render_fields :: "(string \<times> pyval) list \<Rightarrow> string list" where
  "render PNone = ''null''"
| "render (PBool b) = (if b then ''true'' else ''false'')"
| "render (PInt n) = (if n < 0 then CHR ''-'' # string_of_nat (nat (- n)) else string_of_nat (nat n))"
| "render (PFloat r) = r"
| "render (PStr s) = s"
| "render (PTimestamp tz t) = ''Timestamp''"
| "render PNaT = ''NaT''"
| "render (PList vs) = ''['' @ join '', '' (render_items vs) @ '']''"
| "render (PDict kvs) = ''{'' @ join '', '' (render_fields kvs) @ ''}''"
| "render_items [] = []"
| "render_items (v # vs) = render v # render_items vs"
| "render_fields [] = []"
| "render_fields ((k, v) # kvs) = (k @ '': '' @ render v) # render_fields kvs"

text \<open>Instants are whole days here: day \<open>d\<close> of January 1970, for \<open>d\<close> below 9.\<close>

definition demo_isoformat :: "tzinfo \<Rightarrow> int \<Rightarrow> string" where
  "demo_isoformat tz t =
     ''1970-01-0'' @ string_of_nat (nat (t div 86400000000000 + 1)) @ ''T00:00:00+00:00''"

definition flow_frame :: dataframe where
  "flow_frame =
     \<lparr>index_name = Some ''time'',
      index = Datetime64 (Some ''UTC'') [Some 0, Some 86400000000000, None, Some 172800000000000],
      columns = [(''7'', Values [PFloat ''1.5'', PFloat ''2.5'', PFloat ''3.5'', PFloat ''4.5''])]\<rparr>"

definition stamped_frame :: dataframe where
  "stamped_frame =
     \<lparr>index_name = None,
      index = Values [PInt 0, PInt 1],
      columns = [(''issued'', Datetime64 None [None, Some 86400000000000]),
                 (''flow_avg'', Values [PFloat ''1.5'', PFloat ''2.5''])]\<rparr>"

definition periods_frame :: dataframe where
  "periods_frame =
     \<lparr>index_name = Some ''river_id'', index = Values [PInt 7],
      columns = [(''2'', Values [PFloat ''24879.5'']), (''5'', Values [PFloat ''30754.4''])]\<rparr>"



definition demo_library :: library where
  "demo_library =
     \<lparr>forecast = (\<lambda>river_id date.
        if river_id = 7 then Inr flow_frame else Inl (LibraryError ''unknown river'')),
      retrospective = (\<lambda>river_id.
        if river_id = 7 then Inr flow_frame else Inl (LibraryError ''unknown river'')),
      forecast_stats = (\<lambda>river_id date.
        if river_id = 7 then Inr stamped_frame else Inl (LibraryError ''unknown river'')),
      return_periods = (\<lambda>river_id.
        if river_id = 7 then Inr periods_frame else Inl (LibraryError ''unknown river'')),
      isoformat = demo_isoformat,
      to_datetime = (\<lambda>vs. Inl (ValueError ''unknown datetime string format'')),
      to_datetime_utc = (\<lambda>s.
        if s = ''19700102'' then Inr (Some 86400000000000)
        else if s = ''19700103'' then Inr (Some 172800000000000)
        else Inl (ValueError ''unknown datetime string format'')),
      json_dumps = (\<lambda>v. Inr (render v)),
      to_json = (\<lambda>df. Inr (''{'' @ join '', '' (labels df) @ ''}''))\<rparr>"

definition field :: "string \<Rightarrow> pyval \<Rightarrow> pyval" where
  "field k v =
     (case v of
        PDict kvs \<Rightarrow> (case map_of kvs k of Some x \<Rightarrow> x | None \<Rightarrow> PFloat ''nan'')
      | _ \<Rightarrow> PFloat ''nan'')"

definition demo_DataFrame :: "pyval \<Rightarrow> exn + dataframe" where
  "demo_DataFrame v =
     (case v of
        PList (PDict kvs # rest) \<Rightarrow>
          Inr \<lparr>index_name = None,
               index = Values (map (\<lambda>i. PInt (int i)) [0..<Suc (length rest)]),
               columns = map (\<lambda>(k, x). (k, Values (map (field k) (PDict kvs # rest)))) kvs\<rparr>
      | _ \<Rightarrow> Inl (ValueError ''DataFrame constructor not properly called!''))"

definition demo_to_datetime :: "column \<Rightarrow> exn + column" where
  "demo_to_datetime c =
     (case c of
        Values vs \<Rightarrow> Inr (Datetime64 None (map (\<lambda>v. case v of PInt n \<Rightarrow> Some n | _ \<Rightarrow> None) vs))
      | Datetime64 tz xs \<Rightarrow> Inr (Datetime64 tz xs))"

definition demo_env :: agent_env where
  "demo_env =
     \<lparr>json_loads = (\<lambda>s.
        if s = ''[{time: 0, flow_avg: 1.5}]'' then
          Inr (PList [PDict [(''time'', PInt 0), (''flow_avg'', PFloat ''1.5'')]])
        else if s = ''[{time: 0, flow_max: 1.5}]'' then
          Inr (PList [PDict [(''time'', PInt 0), (''flow_max'', PFloat ''1.5'')]])
        else if s = ''[{time: 0, 7: 1.5}]'' then
          Inr (PList [PDict [(''time'', PInt 0), (''7'', PFloat ''1.5'')]])
        else if s = ''[{time: 0, flow_uncertainty_upper: 2.5, flow_median: 1.5, flow_uncertainty_lower: 0.5}]'' then
          Inr (PList [PDict [(''time'', PInt 0), (''flow_uncertainty_upper'', PFloat ''2.5''),
                             (''flow_median'', PFloat ''1.5''),
                             (''flow_uncertainty_lower'', PFloat ''0.5'')]])
        else if s = ''{data_request: get_forecast_stats, reach_id: 7, data: [{time: 0, flow_avg: 1.5}]}'' then
          Inr (PDict [(''data_request'', PStr ''get_forecast_stats''), (''reach_id'', PInt 7),
                      (''data'', PStr ''[{time: 0, flow_avg: 1.5}]'')])
        else Inl (JSONDecodeError ''Expecting value'')),
      pd_DataFrame = demo_DataFrame,
      to_datetime_series = demo_to_datetime,
      py_repr = (\<lambda>v. ''<object>''),
      fails = (\<lambda>completed ev. None)\<rparr>"

text \<open>The agent state after the data agent answered a request for reach 7.\<close>

definition answered :: "string \<Rightarrow> string \<Rightarrow> pyval" where
  "answered data_request data =
     PDict [(''data_request'', PStr data_request), (''reach_id'', PInt 7), (''data'', PStr data)]"

definition stored :: "string \<Rightarrow> string \<Rightarrow> (string \<rightharpoonup> pyval)" where
  "stored data_request data = [''streamflow_out'' \<mapsto> answered data_request data]"

section \<open>Auxiliary facts\<close>

lemma and_then_Inl [simp]: "and_then (Inl e) f = Inl e"
  by (simp add: and_then_def)

lemma and_then_Inr [simp]: "and_then (Inr a) f = f a"
  by (simp add: and_then_def)

subsection \<open>The conversion loop\<close>










subsection \<open>Row selection\<close>

lemma in_range_keep: "in_range lo hi x \<longleftrightarrow> keep_from lo x \<and> keep_until hi x"
  by (auto simp: in_range_def keep_from_def keep_until_def split: option.splits)

lemma pick_Nil [simp]: "pick [] ys = []" "pick ks [] = []"
  by (simp_all add: pick_def)

lemma pick_Cons [simp]: "pick (k # ks) (y # ys) = (if k then y # pick ks ys else pick ks ys)"
  by (simp add: pick_def)

lemma pick_map_filter: "pick (map P xs) xs = filter P xs"
  by (induction xs) simp_all

lemma pick_all: "length xs = length ys \<Longrightarrow> \<forall>x \<in> set xs. P x \<Longrightarrow> pick (map P xs) ys = ys"
  by (induction xs ys rule: list_induct2) auto

lemma length_pick: "length xs = length ys \<Longrightarrow> length (pick (map P xs) ys) = length (filter P xs)"
  by (induction xs ys rule: list_induct2) auto

lemma pick_pick:
  "length xs = length ys \<Longrightarrow>
   pick (map Q (pick (map P xs) xs)) (pick (map P xs) ys) = pick (map (\<lambda>x. P x \<and> Q x) xs) ys"
  by (induction xs ys rule: list_induct2) simp_all

lemma take_rows_twice:
  assumes "col_len c = length xs"
  shows "take_rows (map Q (pick (map P xs) xs)) (take_rows (map P xs) c) =
         take_rows (map (\<lambda>x. P x \<and> Q x) xs) c"
  using assms by (cases c) (simp_all add: pick_pick)

lemma take_rows_all:
  assumes "col_len c = length xs" "\<forall>x \<in> set xs. P x"
  shows "take_rows (map P xs) c = c"
  using assms by (cases c) (simp_all add: pick_all)

lemma select_rows_all:
  assumes "wf_frame df" "length xs = nrows df" "\<forall>x \<in> set xs. P x"
  shows "select_rows (map P xs) df = df"
proof -
  have "take_rows (map P xs) (index df) = index df"
    using assms by (intro take_rows_all) (simp_all add: nrows_def)
  moreover have "map (\<lambda>(n, c). (n, take_rows (map P xs) c)) (columns df) = columns df"
    using assms by (intro map_idI) (auto simp: wf_frame_def list_all_iff take_rows_all)
  ultimately show ?thesis
    by (simp add: select_rows_def)
qed

lemma select_rows_twice:
  assumes "wf_frame df" "index df = Datetime64 tz ts"
  shows "select_rows (map Q (filter P ts)) (select_rows (map P ts) df) =
         select_rows (map (\<lambda>x. P x \<and> Q x) ts) df"
proof -
  have len: "\<And>n c. (n, c) \<in> set (columns df) \<Longrightarrow> col_len c = length ts"
    using assms by (auto simp: wf_frame_def list_all_iff nrows_def)
  have "map (\<lambda>(n, c). (n, take_rows (map Q (filter P ts)) c))
          (map (\<lambda>(n, c). (n, take_rows (map P ts) c)) (columns df)) =
        map (\<lambda>(n, c). (n, take_rows (map (\<lambda>x. P x \<and> Q x) ts) c)) (columns df)"
    using len take_rows_twice [of _ ts Q P]
    by (auto simp: pick_map_filter)
  moreover have "pick (map Q (filter P ts)) (filter P ts) = pick (map (\<lambda>x. P x \<and> Q x) ts) ts"
    using pick_pick [of ts ts Q P] by (simp add: pick_map_filter)
  ultimately show ?thesis
    using assms(2) by (simp add: select_rows_def pick_map_filter)
qed

lemma wf_frame_select_rows:
  assumes "wf_frame df" "index df = Datetime64 tz ts"
  shows "wf_frame (select_rows (map P ts) df)"
proof -
  have len: "\<And>n c. (n, c) \<in> set (columns df) \<Longrightarrow> col_len c = length ts"
    using assms by (auto simp: wf_frame_def list_all_iff nrows_def)
  have "\<And>c. col_len c = length ts \<Longrightarrow> col_len (take_rows (map P ts) c) = length (filter P ts)"
  proof -
    fix c :: column assume "col_len c = length ts"
    then show "col_len (take_rows (map P ts) c) = length (filter P ts)"
      by (cases c) (simp_all add: length_pick)
  qed
  with len have "list_all (\<lambda>(n, c). col_len c = length (filter P ts))
                  (map (\<lambda>(n, c). (n, take_rows (map P ts) c)) (columns df))"
    by (auto simp: list_all_iff)
  then have "list_all (\<lambda>(n, c). col_len c = nrows (select_rows (map P ts) df))
               (columns (select_rows (map P ts) df))"
    using assms(2) by (simp add: select_rows_def nrows_def pick_map_filter)
  moreover have "labels (select_rows (map P ts) df) = labels df"
    by (simp add: labels_def select_rows_def comp_def case_prod_unfold)
  ultimately show ?thesis
    using assms(1) by (simp only: wf_frame_def simp_thms)
qed

lemma filter_bound_from:
  assumes "wf_frame df" "index df = Datetime64 tz ts" "tz \<noteq> None \<or> lo = None"
    "bound_given L start_date lo"
  shows "filter_bound L (\<lambda>t b. t \<ge> b) start_date df = Inr (select_rows (map (keep_from lo) ts) df)"
proof (cases lo)
  case None
  then have "filter_bound L (\<lambda>t b. t \<ge> b) start_date df = Inr df"
    using assms(4) by (auto simp: bound_given_def filter_bound_def split: option.splits)
  moreover have "select_rows (map (keep_from lo) ts) df = df"
    using assms(1,2) None by (intro select_rows_all) (simp_all add: nrows_def keep_from_def)
  ultimately show ?thesis by simp
next
  case (Some l)
  then obtain s where s: "start_date = Some s" "s \<noteq> []" "to_datetime_utc L s = Inr (Some l)"
    using assms(4) by (auto simp: bound_given_def split: option.splits)
  have "(\<lambda>x. case x of None \<Rightarrow> False | Some t \<Rightarrow> l \<le> t) = keep_from lo"
    using Some by (simp add: keep_from_def fun_eq_iff)
  then show ?thesis
    using s assms(2,3) Some by (auto simp: filter_bound_def)
qed

lemma filter_bound_until:
  assumes "wf_frame df" "index df = Datetime64 tz ts" "tz \<noteq> None \<or> hi = None"
    "bound_given L end_date hi"
  shows "filter_bound L (\<lambda>t b. t \<le> b) end_date df = Inr (select_rows (map (keep_until hi) ts) df)"
proof (cases hi)
  case None
  then have "filter_bound L (\<lambda>t b. t \<le> b) end_date df = Inr df"
    using assms(4) by (auto simp: bound_given_def filter_bound_def split: option.splits)
  moreover have "select_rows (map (keep_until hi) ts) df = df"
    using assms(1,2) None by (intro select_rows_all) (simp_all add: nrows_def keep_until_def)
  ultimately show ?thesis by simp
next
  case (Some h)
  then obtain s where s: "end_date = Some s" "s \<noteq> []" "to_datetime_utc L s = Inr (Some h)"
    using assms(4) by (auto simp: bound_given_def split: option.splits)
  have "(\<lambda>x. case x of None \<Rightarrow> False | Some t \<Rightarrow> t \<le> h) = keep_until hi"
    using Some by (simp add: keep_until_def fun_eq_iff)
  then show ?thesis
    using s assms(2,3) Some by (auto simp: filter_bound_def)
qed

subsection \<open>Steps of the plotting tool\<close>

lemma start_fields [simp]: "col_to_plot start = None" "trace start = []" "raised start = None"
  by (simp_all add: start_def)

lemma col_to_plot_call [simp]: "col_to_plot (call E ev oc) = col_to_plot oc"
  by (simp add: call_def split: option.splits)

lemma col_to_plot_raise [simp]: "col_to_plot (raise e oc) = col_to_plot oc"
  by (simp add: raise_def)

lemma col_to_plot_subscript [simp]: "col_to_plot (subscript df c oc) = col_to_plot oc"
  by (simp add: subscript_def)

lemma col_to_plot_assign_start [simp]: "col_to_plot (assign c start) = Some c"
  by (simp add: assign_def)

lemma col_to_plot_save_plot [simp]: "col_to_plot (save_plot E df oc) = col_to_plot oc"
  by (simp add: save_plot_def run_def split: option.splits)

lemma trace_callD: "x \<in> set (trace (call E ev oc)) \<Longrightarrow> x = ev \<or> x \<in> set (trace oc)"
  by (auto simp: call_def split: if_splits option.splits)

lemma trace_raise [simp]: "trace (raise e oc) = trace oc"
  by (simp add: raise_def)

lemma trace_subscript [simp]: "trace (subscript df c oc) = trace oc"
  by (simp add: subscript_def)

lemma trace_assign [simp]: "trace (assign c oc) = trace oc"
  by (simp add: assign_def)

lemma trace_dispatchD:
  "x \<in> set (trace (dispatch E mcp_response data_request df)) \<Longrightarrow>
   (\<exists>c l. x = Plot c l) \<or> (\<exists>a b. x = FillBetween a b) \<or> x = Legend"
  by (auto simp: dispatch_def run_def split: if_splits sum.splits dest!: trace_callD)

lemma trace_save_plotD:
  "x \<in> set (trace (save_plot E df oc)) \<Longrightarrow>
   x \<in> set (trace oc) \<or> x \<in> {Savefig, Close, Print, SaveArtifact ''geoglows_plot.png''}"
  by (auto simp: save_plot_def run_def split: if_splits option.splits dest!: trace_callD)

subsection \<open>The example inputs\<close>



lemma demo_response:
  "response demo_env (stored data_request data) = Inr (answered data_request data)"
  by (simp add: response_def stored_def answered_def)

lemma demo_data_request:
  "getitem (answered data_request data) ''data_request'' = Inr (PStr data_request)"
  by (simp add: getitem_def answered_def)

section \<open>Properties of the protocol server\<close>






text \<open>
  C3, as the code has it: the server registers exactly four tools. Each requires
  \<open>river_id\<close> and nothing else; \<open>get_forecasted_streamflow\<close> and \<open>get_forecast_stats\<close>
  take one optional \<open>date\<close>, \<open>get_historical_streamflow\<close> an optional \<open>start_date\<close> and
  \<open>end_date\<close>, and \<open>get_return_periods\<close> no date at all. What a tool returns is the text
  written by \<open>json.dumps\<close>, or by \<open>DataFrame.to_json\<close> for \<open>get_return_periods\<close>.
\<close>

theorem tool_surface:
  "map tool_name mcp_tools =
     [''get_forecasted_streamflow'', ''get_historical_streamflow'', ''get_forecast_stats'',
      ''get_return_periods''] \<and>
   map required mcp_tools = [[''river_id''], [''river_id''], [''river_id''], [''river_id'']] \<and>
   map optional mcp_tools = [[''date''], [''start_date'', ''end_date''], [''date''], []] \<and>
   (get_forecasted_streamflow L river_id date = Inr out \<longrightarrow> (\<exists>v. json_dumps L v = Inr out)) \<and>
   (get_historical_streamflow L river_id start_date end_date = Inr out \<longrightarrow>
      (\<exists>v. json_dumps L v = Inr out)) \<and>
   (get_forecast_stats L river_id date = Inr out \<longrightarrow> (\<exists>v. json_dumps L v = Inr out)) \<and>
   (get_return_periods L river_id = Inr out \<longrightarrow> (\<exists>df. to_json L df = Inr out))"
proof -
  have dumped: "\<And>df. dumps_records L df = Inr out \<Longrightarrow> \<exists>v. json_dumps L v = Inr out"
    by (auto simp: dumps_records_def and_then_def split: sum.splits)
  have "get_forecasted_streamflow L river_id date = Inr out \<longrightarrow> (\<exists>v. json_dumps L v = Inr out)"
    by (auto simp: get_forecasted_streamflow_def and_then_def split: sum.splits dest: dumped)
  moreover have "get_historical_streamflow L river_id start_date end_date = Inr out \<longrightarrow>
      (\<exists>v. json_dumps L v = Inr out)"
    by (auto simp: get_historical_streamflow_def and_then_def split: sum.splits dest: dumped)
  moreover have "get_forecast_stats L river_id date = Inr out \<longrightarrow> (\<exists>v. json_dumps L v = Inr out)"
    by (auto simp: get_forecast_stats_def and_then_def split: sum.splits dest: dumped)
  moreover have "get_return_periods L river_id = Inr out \<longrightarrow> (\<exists>df. to_json L df = Inr out)"
    by (auto simp: get_return_periods_def and_then_def split: sum.splits)
  ultimately show ?thesis
    by (simp add: mcp_tools_def)
qed

text \<open>
  C3, witness: for river 7 of the example library each of the four tools returns a text.
\<close>

theorem tool_surface_witness:
  "get_forecasted_streamflow demo_library 7 None =
     Inr ''[{time: 1970-01-01T00:00:00+00:00, 7: 1.5}, {time: 1970-01-02T00:00:00+00:00, 7: 2.5}, {time: null, 7: 3.5}, {time: 1970-01-03T00:00:00+00:00, 7: 4.5}]'' \<and>
   get_historical_streamflow demo_library 7 None (Some ''19700102'') =
     Inr ''[{time: 1970-01-01T00:00:00+00:00, 7: 1.5}, {time: 1970-01-02T00:00:00+00:00, 7: 2.5}]'' \<and>
   get_forecast_stats demo_library 7 None =
     Inr ''[{index: 0, issued: null, flow_avg: 1.5}, {index: 1, issued: 1970-01-02T00:00:00+00:00, flow_avg: 2.5}]'' \<and>
   get_return_periods demo_library 7 = Inr ''{2, 5}'' \<and>
   (\<exists>v. json_dumps demo_library v =
      Inr ''[{time: 1970-01-01T00:00:00+00:00, 7: 1.5}, {time: 1970-01-02T00:00:00+00:00, 7: 2.5}]'') \<and>
   (\<exists>df. to_json demo_library df = Inr ''{2, 5}'')"
proof -
  have a: "get_forecasted_streamflow demo_library 7 None =
     Inr ''[{time: 1970-01-01T00:00:00+00:00, 7: 1.5}, {time: 1970-01-02T00:00:00+00:00, 7: 2.5}, {time: null, 7: 3.5}, {time: 1970-01-03T00:00:00+00:00, 7: 4.5}]''"
    by code_simp
  have b: "get_historical_streamflow demo_library 7 None (Some ''19700102'') =
     Inr ''[{time: 1970-01-01T00:00:00+00:00, 7: 1.5}, {time: 1970-01-02T00:00:00+00:00, 7: 2.5}]''"
    by code_simp
  have c: "get_forecast_stats demo_library 7 None =
     Inr ''[{index: 0, issued: null, flow_avg: 1.5}, {index: 1, issued: 1970-01-02T00:00:00+00:00, flow_avg: 2.5}]''"
    by code_simp
  have d: "get_return_periods demo_library 7 = Inr ''{2, 5}''"
    by code_simp
  show ?thesis
    using a b c d
      tool_surface [of demo_library 7 None
        "''[{time: 1970-01-01T00:00:00+00:00, 7: 1.5}, {time: 1970-01-02T00:00:00+00:00, 7: 2.5}]''"
        None "Some ''19700102''"]
      tool_surface [of demo_library 7 None "''{2, 5}''" None None]
    by (simp only: simp_thms)
qed

text \<open>
  C3, counterexample: the fourth registered tool is \<open>get_return_periods\<close>, and it has no
  optional parameter, so no date bound can be passed to it.
\<close>

theorem return_periods_takes_no_date:
  "tool_name (mcp_tools ! 3) = ''get_return_periods'' \<and> optional (mcp_tools ! 3) = [] \<and>
   required (mcp_tools ! 3) = [''river_id'']"
  by (simp add: mcp_tools_def)

text \<open>
  C4: when the fetch a tool makes into the data library raises, the tool raises the same
  exception, for each of the four tools.
\<close>

theorem library_errors_propagate:
  "(forecast L river_id date = Inl e \<longrightarrow> get_forecasted_streamflow L river_id date = Inl e) \<and>
   (retrospective L river_id = Inl e \<longrightarrow>
      get_historical_streamflow L river_id start_date end_date = Inl e) \<and>
   (forecast_stats L river_id date = Inl e \<longrightarrow> get_forecast_stats L river_id date = Inl e) \<and>
   (return_periods L river_id = Inl e \<longrightarrow> get_return_periods L river_id = Inl e)"
  by (simp add: get_forecasted_streamflow_def get_historical_streamflow_def
      get_forecast_stats_def get_return_periods_def)

text \<open>
  C4, witness: the example library knows river 7 only; asked for river 8 every fetch raises,
  and every tool raises that exception.
\<close>

theorem library_errors_propagate_witness:
  "forecast demo_library 8 None = Inl (LibraryError ''unknown river'') \<and>
   get_forecasted_streamflow demo_library 8 None = Inl (LibraryError ''unknown river'') \<and>
   retrospective demo_library 8 = Inl (LibraryError ''unknown river'') \<and>
   get_historical_streamflow demo_library 8 (Some ''19700102'') None =
     Inl (LibraryError ''unknown river'') \<and>
   forecast_stats demo_library 8 None = Inl (LibraryError ''unknown river'') \<and>
   get_forecast_stats demo_library 8 None = Inl (LibraryError ''unknown river'') \<and>
   return_periods demo_library 8 = Inl (LibraryError ''unknown river'') \<and>
   get_return_periods demo_library 8 = Inl (LibraryError ''unknown river'')"
  using library_errors_propagate [of demo_library 8 None "LibraryError ''unknown river''"
      "Some ''19700102''" None]
  by (simp add: demo_library_def)

text \<open>
  C6: let the fetched frame, once its index is converted, have a datetime index, and let each
  date argument be absent (or empty) or stand for an instant; the index is zone-aware when a
  bound is given. Then \<open>get_historical_streamflow\<close> returns the serialization of exactly
  the rows whose index entry lies within the bounds, both ends included; the index of that
  frame is the fetched index filtered by the bounds; and with neither bound the frame
  serialized is the fetched one, whole.
\<close>

theorem historical_bounds:
  assumes wf: "wf_frame df"
    and fetch: "retrospective L river_id = Inr df0"
    and conv: "index_to_datetime L df0 = Inr df"
    and idx: "index df = Datetime64 tz ts"
    and aware: "tz \<noteq> None \<or> (lo = None \<and> hi = None)"
    and lo: "bound_given L start_date lo"
    and hi: "bound_given L end_date hi"
  shows "get_historical_streamflow L river_id start_date end_date =
           dumps_records L (select_rows (map (in_range lo hi) ts) df) \<and>
         index (select_rows (map (in_range lo hi) ts) df) =
           Datetime64 tz (filter (in_range lo hi) ts) \<and>
         (lo = None \<and> hi = None \<longrightarrow> select_rows (map (in_range lo hi) ts) df = df)"
proof (intro conjI impI)
  let ?df1 = "select_rows (map (keep_from lo) ts) df"
  have step1: "filter_bound L (\<lambda>t b. t \<ge> b) start_date df = Inr ?df1"
    using wf idx aware lo by (intro filter_bound_from) auto
  have wf1: "wf_frame ?df1"
    using wf idx by (rule wf_frame_select_rows)
  have idx1: "index ?df1 = Datetime64 tz (filter (keep_from lo) ts)"
    using idx by (simp add: select_rows_def pick_map_filter)
  have step2: "filter_bound L (\<lambda>t b. t \<le> b) end_date ?df1 =
               Inr (select_rows (map (keep_until hi) (filter (keep_from lo) ts)) ?df1)"
    using wf1 idx1 aware hi by (intro filter_bound_until) auto
  have both: "select_rows (map (keep_until hi) (filter (keep_from lo) ts)) ?df1 =
              select_rows (map (in_range lo hi) ts) df"
    using select_rows_twice [OF wf idx, of "keep_until hi" "keep_from lo"]
    by (simp add: in_range_keep [abs_def])
  show "get_historical_streamflow L river_id start_date end_date =
          dumps_records L (select_rows (map (in_range lo hi) ts) df)"
    by (simp add: get_historical_streamflow_def fetch conv step1 step2 both)
  show "index (select_rows (map (in_range lo hi) ts) df) = Datetime64 tz (filter (in_range lo hi) ts)"
    using idx by (simp add: select_rows_def pick_map_filter)
  assume "lo = None \<and> hi = None"
  then show "select_rows (map (in_range lo hi) ts) df = df"
    using wf idx by (intro select_rows_all) (auto simp: nrows_def in_range_def split: option.splits)
qed

text \<open>
  C6, witness: river 7 has rows on days 1, 2 and 3 and one row without a time. Asked for
  day 2 to day 3, the tool returns the rows of day 2 and day 3, both bounds included.
\<close>

theorem historical_bounds_witness:
  "wf_frame flow_frame \<and>
   retrospective demo_library 7 = Inr flow_frame \<and>
   index_to_datetime demo_library flow_frame = Inr flow_frame \<and>
   bound_given demo_library (Some ''19700102'') (Some 86400000000000) \<and>
   bound_given demo_library (Some ''19700103'') (Some 172800000000000) \<and>
   get_historical_streamflow demo_library 7 (Some ''19700102'') (Some ''19700103'') =
     Inr ''[{time: 1970-01-02T00:00:00+00:00, 7: 2.5}, {time: 1970-01-03T00:00:00+00:00, 7: 4.5}]''"
proof -
  have h: "wf_frame flow_frame"
    "retrospective demo_library 7 = Inr flow_frame"
    "index_to_datetime demo_library flow_frame = Inr flow_frame"
    "index flow_frame =
       Datetime64 (Some ''UTC'') [Some 0, Some 86400000000000, None, Some 172800000000000]"
    "Some ''UTC'' \<noteq> None \<or>
       (Some (86400000000000::int) = None \<and> Some (172800000000000::int) = None)"
    "bound_given demo_library (Some ''19700102'') (Some 86400000000000)"
    "bound_given demo_library (Some ''19700103'') (Some 172800000000000)"
    by (simp_all add: wf_frame_def flow_frame_def labels_def nrows_def demo_library_def
        index_to_datetime_def bound_given_def)
  have "dumps_records demo_library
          (select_rows (map (in_range (Some 86400000000000) (Some 172800000000000))
             [Some 0, Some 86400000000000, None, Some 172800000000000]) flow_frame) =
        Inr ''[{time: 1970-01-02T00:00:00+00:00, 7: 2.5}, {time: 1970-01-03T00:00:00+00:00, 7: 4.5}]''"
    by code_simp
  with historical_bounds [OF h] h show ?thesis
    by simp
qed




section \<open>Properties of the plotting tool\<close>

text \<open>
  C5: once the stored response is read and names its request, \<open>plot_streamflow\<close> chooses
  the column by the request: \<open>flow_median\<close> for \<open>get_forecasted_streamflow\<close>, the string
  form of the response's \<open>reach_id\<close> for \<open>get_historical_streamflow\<close>, \<open>flow_avg\<close> for
  \<open>get_forecast_stats\<close>; for \<open>get_return_periods\<close> it chooses none and returns having
  made no call and raised nothing.
\<close>

theorem column_choice:
  assumes "response E state = Inr mcp_response"
    and "getitem mcp_response ''data_request'' = Inr data_request"
  shows "(data_request = PStr ''get_forecasted_streamflow'' \<longrightarrow> frame E mcp_response = Inr df \<longrightarrow>
            col_to_plot (plot_streamflow E state) = Some ''flow_median'') \<and>
         (data_request = PStr ''get_historical_streamflow'' \<longrightarrow> frame E mcp_response = Inr df \<longrightarrow>
            getitem mcp_response ''reach_id'' = Inr reach_id \<longrightarrow>
            col_to_plot (plot_streamflow E state) = Some (py_str E reach_id)) \<and>
         (data_request = PStr ''get_forecast_stats'' \<longrightarrow> frame E mcp_response = Inr df \<longrightarrow>
            col_to_plot (plot_streamflow E state) = Some ''flow_avg'') \<and>
         (data_request = PStr ''get_return_periods'' \<longrightarrow>
            plot_streamflow E state = \<lparr>col_to_plot = None, trace = [], raised = None\<rparr>)"
  using assms by (simp add: plot_streamflow_def dispatch_def run_def start_def [symmetric])

text \<open>
  C5, witness: the four requests for reach 7 in the example environment; the column of the
  historical request is \<open>7\<close>, the reach identifier as a string.
\<close>

theorem column_choice_witness:
  "col_to_plot (plot_streamflow demo_env (stored ''get_forecasted_streamflow''
      ''[{time: 0, flow_uncertainty_upper: 2.5, flow_median: 1.5, flow_uncertainty_lower: 0.5}]'')) =
     Some ''flow_median'' \<and>
   col_to_plot (plot_streamflow demo_env (stored ''get_historical_streamflow'' ''[{time: 0, 7: 1.5}]'')) =
     Some ''7'' \<and>
   col_to_plot (plot_streamflow demo_env (stored ''get_forecast_stats'' ''[{time: 0, flow_avg: 1.5}]'')) =
     Some ''flow_avg'' \<and>
   plot_streamflow demo_env (stored ''get_return_periods'' ''{}'') =
     \<lparr>col_to_plot = None, trace = [], raised = None\<rparr>"
proof -
  let ?fc = "''[{time: 0, flow_uncertainty_upper: 2.5, flow_median: 1.5, flow_uncertainty_lower: 0.5}]''"
  have f1: "frame demo_env (answered ''get_forecasted_streamflow'' ?fc) =
      Inr \<lparr>index_name = Some ''time'', index = Datetime64 None [Some 0],
           columns = [(''flow_uncertainty_upper'', Values [PFloat ''2.5'']),
                      (''flow_median'', Values [PFloat ''1.5'']),
                      (''flow_uncertainty_lower'', Values [PFloat ''0.5''])]\<rparr>"
    by code_simp
  have f2: "frame demo_env (answered ''get_historical_streamflow'' ''[{time: 0, 7: 1.5}]'') =
      Inr \<lparr>index_name = Some ''time'', index = Datetime64 None [Some 0],
           columns = [(''7'', Values [PFloat ''1.5''])]\<rparr>"
    by code_simp
  have f3: "frame demo_env (answered ''get_forecast_stats'' ''[{time: 0, flow_avg: 1.5}]'') =
      Inr \<lparr>index_name = Some ''time'', index = Datetime64 None [Some 0],
           columns = [(''flow_avg'', Values [PFloat ''1.5''])]\<rparr>"
    by code_simp
  have g: "getitem (answered ''get_historical_streamflow'' ''[{time: 0, 7: 1.5}]'') ''reach_id'' =
      Inr (PInt 7)"
    by (simp add: getitem_def answered_def)
  have s: "py_str demo_env (PInt 7) = ''7''"
    by code_simp
  show ?thesis
    using column_choice [OF demo_response demo_data_request,
        of "''get_forecasted_streamflow''" ?fc _ "PInt 7"] f1
      column_choice [OF demo_response demo_data_request,
        of "''get_historical_streamflow''" "''[{time: 0, 7: 1.5}]''" _ "PInt 7"] f2 g s
      column_choice [OF demo_response demo_data_request,
        of "''get_forecast_stats''" "''[{time: 0, flow_avg: 1.5}]''" _ "PInt 7"] f3
      column_choice [OF demo_response demo_data_request, of "''get_return_periods''" "''{}''"]
    by simp
qed

text \<open>
  C7: every artifact that a run of \<open>plot_streamflow\<close> saves is saved under the name
  \<open>geoglows_plot.png\<close>.
\<close>

theorem artifact_name_fixed:
  "\<forall>name. SaveArtifact name \<in> set (trace (plot_streamflow E state)) \<longrightarrow>
     name = ''geoglows_plot.png''"
  by (auto simp: plot_streamflow_def split: sum.splits if_splits
      dest!: trace_save_plotD trace_dispatchD)

text \<open>
  C7, witness: the historical request for reach 7 plots column \<open>7\<close> and saves an artifact
  named \<open>geoglows_plot.png\<close>, and none named \<open>plot.png\<close>.
\<close>

theorem artifact_name_fixed_witness:
  "SaveArtifact ''geoglows_plot.png'' \<in>
     set (trace (plot_streamflow demo_env
       (stored ''get_historical_streamflow'' ''[{time: 0, 7: 1.5}]''))) \<and>
   SaveArtifact ''plot.png'' \<notin>
     set (trace (plot_streamflow demo_env
       (stored ''get_historical_streamflow'' ''[{time: 0, 7: 1.5}]'')))"
proof -
  have "plot_streamflow demo_env (stored ''get_historical_streamflow'' ''[{time: 0, 7: 1.5}]'') =
        \<lparr>col_to_plot = Some ''7'',
         trace = [Plot ''7'' None, Savefig, Close, Print, SaveArtifact ''geoglows_plot.png''],
         raised = None\<rparr>"
    by code_simp
  then have "SaveArtifact ''geoglows_plot.png'' \<in>
      set (trace (plot_streamflow demo_env
        (stored ''get_historical_streamflow'' ''[{time: 0, 7: 1.5}]'')))"
    by simp
  moreover have "''plot.png'' \<noteq> ''geoglows_plot.png''"
    by simp
  ultimately show ?thesis
    using artifact_name_fixed [of demo_env
        "stored ''get_historical_streamflow'' ''[{time: 0, 7: 1.5}]''"]
    by blast
qed

text \<open>
  C9: when the stored value is a string that the JSON decoder reads as a mapping, the run
  of \<open>plot_streamflow\<close> is the run on that mapping stored in its place.
\<close>

theorem string_or_mapping:
  assumes "json_loads E s = Inr (PDict m)"
  shows "plot_streamflow E (state(''streamflow_out'' \<mapsto> PStr s)) =
         plot_streamflow E (state(''streamflow_out'' \<mapsto> PDict m))"
  using assms by (simp add: plot_streamflow_def response_def)

text \<open>
  C9, witness: the response to a statistics request, stored as text and stored as the
  mapping the decoder reads from that text, gives the same run, which saves the artifact.
\<close>

theorem string_or_mapping_witness:
  "json_loads demo_env
     ''{data_request: get_forecast_stats, reach_id: 7, data: [{time: 0, flow_avg: 1.5}]}'' =
     Inr (PDict [(''data_request'', PStr ''get_forecast_stats''), (''reach_id'', PInt 7),
                 (''data'', PStr ''[{time: 0, flow_avg: 1.5}]'')]) \<and>
   plot_streamflow demo_env (Map.empty(''streamflow_out'' \<mapsto> PStr
     ''{data_request: get_forecast_stats, reach_id: 7, data: [{time: 0, flow_avg: 1.5}]}'')) =
   plot_streamflow demo_env (Map.empty(''streamflow_out'' \<mapsto>
     PDict [(''data_request'', PStr ''get_forecast_stats''), (''reach_id'', PInt 7),
            (''data'', PStr ''[{time: 0, flow_avg: 1.5}]'')])) \<and>
   plot_streamflow demo_env (Map.empty(''streamflow_out'' \<mapsto> PStr
     ''{data_request: get_forecast_stats, reach_id: 7, data: [{time: 0, flow_avg: 1.5}]}'')) =
     \<lparr>col_to_plot = Some ''flow_avg'',
      trace = [Savefig, Close, Print, SaveArtifact ''geoglows_plot.png''], raised = None\<rparr>"
proof -
  let ?s = "''{data_request: get_forecast_stats, reach_id: 7, data: [{time: 0, flow_avg: 1.5}]}''"
  let ?m = "[(''data_request'', PStr ''get_forecast_stats''), (''reach_id'', PInt 7),
             (''data'', PStr ''[{time: 0, flow_avg: 1.5}]'')]"
  have l: "json_loads demo_env ?s = Inr (PDict ?m)"
    by (simp add: demo_env_def)
  have "plot_streamflow demo_env (Map.empty(''streamflow_out'' \<mapsto> PDict ?m)) =
     \<lparr>col_to_plot = Some ''flow_avg'',
      trace = [Savefig, Close, Print, SaveArtifact ''geoglows_plot.png''], raised = None\<rparr>"
    using stored_def [of "''get_forecast_stats''" "''[{time: 0, flow_avg: 1.5}]''"]
    by (simp add: plot_streamflow_def response_def getitem_def frame_def loads_value_def
        demo_env_def demo_DataFrame_def index_by_time_def demo_to_datetime_def field_def
        dispatch_def save_plot_def assign_def start_def run_def call_def labels_def)
  then show ?thesis
    using l string_or_mapping [OF l, of Map.empty] by simp
qed

text \<open>
  C10: take a \<open>get_forecast_stats\<close> request whose data builds a frame. If the frame has a
  column \<open>flow_avg\<close> and the four closing calls do not raise, the run saves the figure and
  the artifact and makes no other call; no run plots any column; and if the frame has no
  column \<open>flow_avg\<close>, the run makes no call at all and raises nothing.
\<close>

theorem stats_saved_unplotted:
  assumes "response E state = Inr mcp_response"
    and "getitem mcp_response ''data_request'' = Inr (PStr ''get_forecast_stats'')"
    and "frame E mcp_response = Inr df"
  shows "(''flow_avg'' \<in> set (labels df) \<longrightarrow>
            fails E [] Savefig = None \<longrightarrow> fails E [Savefig] Close = None \<longrightarrow>
            fails E [Savefig, Close] Print = None \<longrightarrow>
            fails E [Savefig, Close, Print] (SaveArtifact ''geoglows_plot.png'') = None \<longrightarrow>
            plot_streamflow E state =
              \<lparr>col_to_plot = Some ''flow_avg'',
               trace = [Savefig, Close, Print, SaveArtifact ''geoglows_plot.png''],
               raised = None\<rparr>) \<and>
         (\<forall>c l. Plot c l \<notin> set (trace (plot_streamflow E state))) \<and>
         (''flow_avg'' \<notin> set (labels df) \<longrightarrow>
            plot_streamflow E state = \<lparr>col_to_plot = Some ''flow_avg'', trace = [], raised = None\<rparr>)"
proof -
  have eq: "plot_streamflow E state = save_plot E df (assign ''flow_avg'' start)"
    using assms by (simp add: plot_streamflow_def dispatch_def)
  have "\<forall>c l. Plot c l \<notin> set (trace (plot_streamflow E state))"
    unfolding eq by (auto dest!: trace_save_plotD)
  then show ?thesis
    unfolding eq by (simp add: save_plot_def assign_def start_def run_def call_def)
qed

text \<open>
  C10, witness: statistics with a column \<open>flow_avg\<close> are saved unplotted; statistics
  with a column \<open>flow_max\<close> only leave no artifact and no exception.
\<close>

theorem stats_saved_unplotted_witness:
  "plot_streamflow demo_env (stored ''get_forecast_stats'' ''[{time: 0, flow_avg: 1.5}]'') =
     \<lparr>col_to_plot = Some ''flow_avg'',
      trace = [Savefig, Close, Print, SaveArtifact ''geoglows_plot.png''], raised = None\<rparr> \<and>
   plot_streamflow demo_env (stored ''get_forecast_stats'' ''[{time: 0, flow_max: 1.5}]'') =
     \<lparr>col_to_plot = Some ''flow_avg'', trace = [], raised = None\<rparr>"
proof -
  have f1: "frame demo_env (answered ''get_forecast_stats'' ''[{time: 0, flow_avg: 1.5}]'') =
      Inr \<lparr>index_name = Some ''time'', index = Datetime64 None [Some 0],
           columns = [(''flow_avg'', Values [PFloat ''1.5''])]\<rparr>"
    by code_simp
  have f2: "frame demo_env (answered ''get_forecast_stats'' ''[{time: 0, flow_max: 1.5}]'') =
      Inr \<lparr>index_name = Some ''time'', index = Datetime64 None [Some 0],
           columns = [(''flow_max'', Values [PFloat ''1.5''])]\<rparr>"
    by code_simp
  show ?thesis
    using stats_saved_unplotted [OF demo_response demo_data_request f1]
      stats_saved_unplotted [OF demo_response demo_data_request f2]
    by (simp add: labels_def demo_env_def)
qed

end
